theory Spec2Isabelle
  imports Complex_Main
begin

section \<open>Fixed-income return calculator (main_app.py)\<close>

text \<open>
  The engine is the class \<open>Investimento\<close> of \<open>main_app.py\<close>: a constructor, the
  tax-bracket lookup \<open>calcular_aliquota_ir\<close> and \<open>calcular_rentabilidade\<close>, plus
  three subclasses that inherit or delegate.

  Numbers: Python computes with binary floating point. The model computes with exact
  reals, so every statement below is about the arithmetic the code writes down, not about
  the rounding of floats. Years and month counts are Python integers (\<open>int\<close>); the
  principal and the rate are floats (an integer principal typed into the sidebar is below
  \<open>2^53\<close> and is a float exactly).

  Exceptions: of the float operations the engine uses, only \<open>**\<close> raises when its result
  leaves the float range (\<open>OverflowError\<close>); \<open>*\<close>, \<open>+\<close>, \<open>-\<close> and \<open>/\<close> return
  an infinity silently, which the model does not represent. The model raises
  \<open>OverflowError\<close> in \<open>**\<close> by comparing the exact power with the overflow threshold
  of the double format; inputs whose exact power lies within rounding distance of the
  threshold are outside what the model decides.
\<close>

subsection \<open>Data\<close>

text \<open>The attributes set by \<open>Investimento.__init__\<close> (lines 8-13).\<close>

record investimento =
  investimento_inicial :: real
  vencimento_ano :: int
  ano_atual :: int
  periodo_anos :: int
  periodo_meses :: int

text \<open>The dictionary with the fixed keys "valor" and "porcentagem" (lines 59-62).\<close>

record resultado =
  valor :: real
  porcentagem :: real

text \<open>The exceptions the arithmetic of the engine can raise.\<close>

datatype py_error = ZeroDivisionError | OverflowError

subsection \<open>Python arithmetic that can raise\<close>

text \<open>
  \<open>a / b\<close>: true division raises on a zero divisor.
\<close>

definition py_truediv :: "real \<Rightarrow> real \<Rightarrow> py_error + real" where
  "py_truediv a b = (if b = 0 then Inl ZeroDivisionError else Inr (a / b))"

text \<open>
  The overflow threshold of an IEEE double under round-to-nearest: a value of this
  magnitude or more has no finite double (the largest finite double is
  \<open>2^1024 - 2^971\<close>, and the threshold lies half a unit in the last place above it).
\<close>

definition float_overflow :: real where
  "float_overflow = 2 ^ 1024 - 2 ^ 970"

text \<open>
  The result of a float operation that reports overflow: the value, or
  \<open>OverflowError\<close> when it has no finite double.
\<close>

definition float_result :: "real \<Rightarrow> py_error + real" where
  "float_result v = (if float_overflow \<le> \<bar>v\<bar> then Inl OverflowError else Inr v)"

text \<open>
  \<open>x ** n\<close> with a float base and an integer exponent, in the order of CPython's
  \<open>float_pow\<close>: the exponent is converted to a float first (\<open>OverflowError\<close> when it
  is too large); then repeated multiplication for \<open>n \<ge> 0\<close> (so \<open>x ** 0 = 1\<close>, also
  for \<open>x = 0\<close>), \<open>ZeroDivisionError\<close> when zero is raised to a negative power, and the
  reciprocal for \<open>n < 0\<close> otherwise; a power outside the float range raises
  \<open>OverflowError\<close>.
\<close>

definition py_pow :: "real \<Rightarrow> int \<Rightarrow> py_error + real" where
  "py_pow x n =
     (if float_overflow \<le> \<bar>of_int n\<bar> then Inl OverflowError
      else if 0 \<le> n then float_result (x ^ nat n)
      else if x = 0 then Inl ZeroDivisionError
      else float_result (1 / x ^ nat (- n)))"

subsection \<open>The class Investimento\<close>

text \<open>
  \<open>__init__\<close> (lines 8-13). The year read from the wall clock
  (\<open>dt.datetime.now().year\<close>) is an input of the model.
\<close>

definition Investimento_init :: "real \<Rightarrow> int \<Rightarrow> int \<Rightarrow> investimento" where
  "Investimento_init inicial vencimento agora =
     \<lparr> investimento_inicial = inicial,
       vencimento_ano = vencimento,
       ano_atual = agora,
       periodo_anos = vencimento - agora,
       periodo_meses = (vencimento - agora) * 12 \<rparr>"

text \<open>\<open>calcular_aliquota_ir\<close> (lines 15-24); \<open>self\<close> is not read.\<close>

definition calcular_aliquota_ir :: "investimento \<Rightarrow> int \<Rightarrow> real" where
  "calcular_aliquota_ir self meses =
     (if meses \<le> 6 then 0.225
      else if meses \<le> 12 then 0.20
      else if meses \<le> 24 then 0.175
      else 0.15)"

text \<open>
  The coupon loop (lines 41-44): \<open>for mes in range(1, self.periodo_meses + 1)\<close>, with
  the loop variable \<open>mes\<close> and the accumulator \<open>rentabilidade_liquida_total\<close>
  (here \<open>liquida_total\<close>) as arguments. The loop is entered with \<open>mes = 1\<close> and the accumulator \<open>0\<close>.
\<close>

function cupom_loop :: "investimento \<Rightarrow> real \<Rightarrow> int \<Rightarrow> real \<Rightarrow> real" where
  "cupom_loop self taxa_anual mes liquida_total =
     (if mes < periodo_meses self + 1 then
        (let aliquota_ir = calcular_aliquota_ir self mes;
             rentabilidade_liquida_mensal = taxa_anual / 12 * (1 - aliquota_ir)
         in cupom_loop self taxa_anual (mes + 1)
              (liquida_total + investimento_inicial self * rentabilidade_liquida_mensal))
      else liquida_total)"
  by pat_completeness auto
termination
  by (relation "measure (\<lambda>(self, taxa_anual, mes, liquida_total). nat (periodo_meses self + 1 - mes))") auto

declare cupom_loop.simps [simp del]

text \<open>The gross return of the lump-sum branch (lines 47-50).\<close>

definition rentabilidade_bruta :: "investimento \<Rightarrow> real \<Rightarrow> string \<Rightarrow> py_error + real" where
  "rentabilidade_bruta self taxa_anual tipo_juros =
     (if tipo_juros = ''composto'' then
        (case py_pow (1 + taxa_anual) (periodo_anos self) of
           Inl e \<Rightarrow> Inl e
         | Inr fator \<Rightarrow> Inr (investimento_inicial self * fator - investimento_inicial self))
      else Inr (investimento_inicial self * taxa_anual * of_int (periodo_anos self)))"

text \<open>The net return, \<open>rentabilidade_liquida\<close>, as line 58 finds it (lines 39-56).\<close>

definition rentabilidade_liquida ::
  "investimento \<Rightarrow> real \<Rightarrow> string \<Rightarrow> bool \<Rightarrow> bool \<Rightarrow> py_error + real" where
  "rentabilidade_liquida self taxa_anual tipo_juros cupom_mensal tem_ir =
     (if cupom_mensal then Inr (cupom_loop self taxa_anual 1 0)
      else
        (case rentabilidade_bruta self taxa_anual tipo_juros of
           Inl e \<Rightarrow> Inl e
         | Inr bruta \<Rightarrow>
             (if tem_ir then
                Inr (bruta * (1 - calcular_aliquota_ir self (periodo_meses self)))
              else Inr bruta)))"

text \<open>
  \<open>calcular_rentabilidade\<close> (lines 26-62). The callers' defaults
  (\<open>tipo_juros="composto"\<close>, \<open>cupom_mensal=False\<close>, \<open>tem_ir=True\<close>) are passed
  explicitly.
\<close>

definition calcular_rentabilidade ::
  "investimento \<Rightarrow> real \<Rightarrow> string \<Rightarrow> bool \<Rightarrow> bool \<Rightarrow> py_error + resultado" where
  "calcular_rentabilidade self taxa_anual tipo_juros cupom_mensal tem_ir =
     (case rentabilidade_liquida self taxa_anual tipo_juros cupom_mensal tem_ir of
        Inl e \<Rightarrow> Inl e
      | Inr liquida \<Rightarrow>
          (case py_truediv liquida (investimento_inicial self) of
             Inl e \<Rightarrow> Inl e
           | Inr q \<Rightarrow> Inr \<lparr> valor = liquida, porcentagem = q * 100 \<rparr>))"

subsection \<open>The subclasses\<close>

text \<open>
  \<open>InvestimentoPreFixado\<close> (lines 64-66) has an empty body: the method it answers
  with is the inherited one. \<open>InvestimentoPosFixado\<close> (lines 68-75) and
  \<open>InvestimentoInflacao\<close> (lines 77-84) override the method and call
  \<open>super().calcular_rentabilidade\<close> with the four arguments in the same order.
\<close>

definition InvestimentoPreFixado_calcular_rentabilidade ::
  "investimento \<Rightarrow> real \<Rightarrow> string \<Rightarrow> bool \<Rightarrow> bool \<Rightarrow> py_error + resultado" where
  "InvestimentoPreFixado_calcular_rentabilidade = calcular_rentabilidade"

definition InvestimentoPosFixado_calcular_rentabilidade ::
  "investimento \<Rightarrow> real \<Rightarrow> string \<Rightarrow> bool \<Rightarrow> bool \<Rightarrow> py_error + resultado" where
  "InvestimentoPosFixado_calcular_rentabilidade self taxa_anual tipo_juros cupom_mensal tem_ir =
     calcular_rentabilidade self taxa_anual tipo_juros cupom_mensal tem_ir"

definition InvestimentoInflacao_calcular_rentabilidade ::
  "investimento \<Rightarrow> real \<Rightarrow> string \<Rightarrow> bool \<Rightarrow> bool \<Rightarrow> py_error + resultado" where
  "InvestimentoInflacao_calcular_rentabilidade self taxa_anual tipo_juros cupom_mensal tem_ir =
     calcular_rentabilidade self taxa_anual tipo_juros cupom_mensal tem_ir"

section \<open>The tax bracket\<close>

text \<open>
  C3. \<open>calcular_aliquota_ir\<close> returns a value for every non-negative month count:
  0.225 up to month 6, 0.20 for months 7 to 12, 0.175 for months 13 to 24 and 0.15
  after month 24; the upper boundary of each tier belongs to the tier (month 6 gives
  0.225, month 12 gives 0.20, month 24 gives 0.175).
\<close>

theorem aliquota_ir_table:
  assumes "0 \<le> m"
  shows "(m \<le> 6 \<longrightarrow> calcular_aliquota_ir self m = 0.225)
       \<and> (7 \<le> m \<and> m \<le> 12 \<longrightarrow> calcular_aliquota_ir self m = 0.20)
       \<and> (13 \<le> m \<and> m \<le> 24 \<longrightarrow> calcular_aliquota_ir self m = 0.175)
       \<and> (24 < m \<longrightarrow> calcular_aliquota_ir self m = 0.15)
       \<and> calcular_aliquota_ir self 6 = 0.225
       \<and> calcular_aliquota_ir self 12 = 0.20
       \<and> calcular_aliquota_ir self 24 = 0.175"
  by (simp add: calcular_aliquota_ir_def)

theorem aliquota_ir_table_witness:
  "calcular_aliquota_ir (Investimento_init 1000 2028 2026) 1 = 0.225
 \<and> calcular_aliquota_ir (Investimento_init 1000 2028 2026) 7 = 0.20
 \<and> calcular_aliquota_ir (Investimento_init 1000 2028 2026) 13 = 0.175
 \<and> calcular_aliquota_ir (Investimento_init 1000 2028 2026) 25 = 0.15
 \<and> calcular_aliquota_ir (Investimento_init 1000 2028 2026) 100 = 0.15"
  using aliquota_ir_table [of 1 "Investimento_init 1000 2028 2026"]
        aliquota_ir_table [of 7 "Investimento_init 1000 2028 2026"]
        aliquota_ir_table [of 13 "Investimento_init 1000 2028 2026"]
        aliquota_ir_table [of 25 "Investimento_init 1000 2028 2026"]
        aliquota_ir_table [of 100 "Investimento_init 1000 2028 2026"]
  by simp

text \<open>
  C6. \<open>calcular_aliquota_ir\<close> is monotonically non-increasing: for non-negative
  month counts \<open>m1 \<le> m2\<close> the bracket of \<open>m1\<close> is at least the bracket of \<open>m2\<close>.
\<close>

theorem aliquota_ir_antimono:
  assumes "0 \<le> m1" and "m1 \<le> m2"
  shows "calcular_aliquota_ir self m2 \<le> calcular_aliquota_ir self m1"
  using assms by (simp add: calcular_aliquota_ir_def)

theorem aliquota_ir_antimono_witness:
  "calcular_aliquota_ir (Investimento_init 1000 2028 2026) 24
     \<le> calcular_aliquota_ir (Investimento_init 1000 2028 2026) 6"
  using aliquota_ir_antimono [of 6 24 "Investimento_init 1000 2028 2026"]
  by simp

text \<open>
  C10. \<open>calcular_aliquota_ir\<close> is total over all integers: every \<open>meses \<le> 6\<close>,
  negative ones included, gives 0.225, and every integer gives one of the four values
  0.225, 0.20, 0.175 and 0.15.
\<close>

theorem aliquota_ir_all_integers:
  "(meses \<le> 6 \<longrightarrow> calcular_aliquota_ir self meses = 0.225)
 \<and> (meses < 0 \<longrightarrow> calcular_aliquota_ir self meses = 0.225)
 \<and> calcular_aliquota_ir self meses \<in> {0.225, 0.20, 0.175, 0.15}"
  by (simp add: calcular_aliquota_ir_def)

theorem aliquota_ir_all_integers_witness:
  "calcular_aliquota_ir (Investimento_init 1000 2020 2026) (- 72) = 0.225
 \<and> calcular_aliquota_ir (Investimento_init 1000 2020 2026) (- 72) \<in> {0.225, 0.20, 0.175, 0.15}"
  using aliquota_ir_all_integers [of "- 72" "Investimento_init 1000 2020 2026"]
  by simp

section \<open>Helper facts about the arithmetic and the loop\<close>

text \<open>
  The coupon loop, started at month \<open>mes\<close> with accumulator \<open>acc\<close>, adds one
  term per month up to \<open>periodo_meses\<close>; over an empty range it returns \<open>acc\<close>.
\<close>

lemma cupom_loop_sum:
  "cupom_loop self r mes acc =
     acc + (\<Sum>m = mes..periodo_meses self.
              investimento_inicial self * (r / 12) * (1 - calcular_aliquota_ir self m))"
proof (induction self r mes acc rule: cupom_loop.induct)
  case (1 self r mes acc)
  show ?case
  proof (cases "mes < periodo_meses self + 1")
    case True
    then have le: "mes \<le> periodo_meses self" by simp
    have split: "{mes..periodo_meses self} = insert mes {mes + 1..periodo_meses self}"
      using le by auto
    have "cupom_loop self r mes acc =
        cupom_loop self r (mes + 1)
          (acc + investimento_inicial self * (r / 12 * (1 - calcular_aliquota_ir self mes)))"
      using True by (subst cupom_loop.simps) (simp add: Let_def)
    also have "\<dots> =
        acc + investimento_inicial self * (r / 12 * (1 - calcular_aliquota_ir self mes))
        + (\<Sum>m = mes + 1..periodo_meses self.
             investimento_inicial self * (r / 12) * (1 - calcular_aliquota_ir self m))"
      using "1.IH" [OF True refl refl] by simp
    also have "\<dots> =
        acc + (\<Sum>m = mes..periodo_meses self.
                 investimento_inicial self * (r / 12) * (1 - calcular_aliquota_ir self m))"
      by (simp add: split algebra_simps)
    finally show ?thesis .
  next
    case False
    then show ?thesis by (subst cupom_loop.simps) simp
  qed
qed

lemma cupom_loop_empty: "periodo_meses self \<le> 0 \<Longrightarrow> cupom_loop self r 1 0 = 0"
  by (simp add: cupom_loop_sum)

lemma sum_upto_int: "sum f {i..j::int} = sum_list (map f [i..j])"
  by (simp add: sum.distinct_set_conv_list[symmetric])

lemma float_overflow_gt_one: "1 < float_overflow"
  by (simp add: float_overflow_def)


lemma calcular_rentabilidade_cupom:
  "calcular_rentabilidade self r tipo_juros True tem_ir =
     (if investimento_inicial self = 0 then Inl ZeroDivisionError
      else Inr \<lparr> valor = cupom_loop self r 1 0,
                 porcentagem = cupom_loop self r 1 0 / investimento_inicial self * 100 \<rparr>)"
  by (simp add: calcular_rentabilidade_def rentabilidade_liquida_def py_truediv_def)



section \<open>The monthly-coupon strategy\<close>

text \<open>
  C2. With \<open>cupom_mensal\<close> true and a principal \<open>p\<close> other than zero,
  \<open>calcular_rentabilidade\<close> returns as net value the linear sum, over the months
  \<open>m = 1..M\<close> of \<open>periodo_meses\<close>, of \<open>p * (r / 12) * (1 - calcular_aliquota_ir m)\<close>,
  for every rate and every position (also one whose \<open>periodo_meses\<close> is not a multiple
  of twelve). For \<open>p = 1000\<close>, \<open>r = 0.12\<close> and \<open>M = 1\<close> the net value is 7.75.
\<close>

theorem cupom_mensal_linear_sum:
  assumes "investimento_inicial self \<noteq> 0"
  shows "calcular_rentabilidade self r tipo_juros True tem_ir =
           Inr \<lparr> valor = (\<Sum>m = 1..periodo_meses self.
                            investimento_inicial self * (r / 12) * (1 - calcular_aliquota_ir self m)),
                 porcentagem = (\<Sum>m = 1..periodo_meses self.
                            investimento_inicial self * (r / 12) * (1 - calcular_aliquota_ir self m))
                          / investimento_inicial self * 100 \<rparr>
       \<and> calcular_rentabilidade
           \<lparr> investimento_inicial = 1000, vencimento_ano = 2026, ano_atual = 2026,
             periodo_anos = 0, periodo_meses = 1 \<rparr> 0.12 ''composto'' True True
         = Inr \<lparr> valor = 7.75, porcentagem = 0.775 \<rparr>"
proof
  show "calcular_rentabilidade self r tipo_juros True tem_ir =
           Inr \<lparr> valor = (\<Sum>m = 1..periodo_meses self.
                            investimento_inicial self * (r / 12) * (1 - calcular_aliquota_ir self m)),
                 porcentagem = (\<Sum>m = 1..periodo_meses self.
                            investimento_inicial self * (r / 12) * (1 - calcular_aliquota_ir self m))
                          / investimento_inicial self * 100 \<rparr>"
    using assms by (simp add: calcular_rentabilidade_cupom cupom_loop_sum)
next
  have one: "{1..1::int} = {1}" by auto
  show "calcular_rentabilidade
           \<lparr> investimento_inicial = 1000, vencimento_ano = 2026, ano_atual = 2026,
             periodo_anos = 0, periodo_meses = 1 \<rparr> 0.12 ''composto'' True True
         = Inr \<lparr> valor = 7.75, porcentagem = 0.775 \<rparr>"
    by (simp add: calcular_rentabilidade_cupom cupom_loop_sum calcular_aliquota_ir_def one)
qed

theorem cupom_mensal_linear_sum_witness:
  "calcular_rentabilidade (Investimento_init 1000 2027 2026) 0.12 ''composto'' True False
     = Inr \<lparr> valor = 94.5, porcentagem = 9.45 \<rparr>"
proof -
  have "investimento_inicial (Investimento_init 1000 2027 2026) \<noteq> 0"
    by (simp add: Investimento_init_def)
  from cupom_mensal_linear_sum [OF this, of "0.12" "''composto''" False]
  show ?thesis
    by (simp add: Investimento_init_def sum_upto_int upto.simps calcular_aliquota_ir_def)
qed

text \<open>
  C4. With \<open>cupom_mensal\<close> true the flag \<open>tem_ir\<close> has no effect: the call with
  \<open>tem_ir = True\<close> and the call with \<open>tem_ir = False\<close> give the same outcome (the
  same value and percentage, or the same error), for every position, rate and
  \<open>tipo_juros\<close>.
\<close>

theorem cupom_ignores_tem_ir:
  "calcular_rentabilidade self r tipo_juros True True
     = calcular_rentabilidade self r tipo_juros True False"
  by (simp add: calcular_rentabilidade_def rentabilidade_liquida_def)

section \<open>The lump-sum strategy\<close>




section \<open>Zero and negative periods\<close>

text \<open>
  C5. For a position with a positive principal and \<open>periodo_meses = 0\<close> (the maturity
  year is the current year, so \<open>periodo_anos = 0\<close> as well),
  \<open>calcular_rentabilidade\<close> returns the value 0 and the percentage 0, for every rate,
  every \<open>tipo_juros\<close> and both values of \<open>cupom_mensal\<close> and \<open>tem_ir\<close>.
\<close>

theorem zero_period_zero_return:
  assumes "0 < investimento_inicial self"
    and "periodo_meses self = 0"
    and "periodo_meses self = periodo_anos self * 12"
  shows "calcular_rentabilidade self r tipo_juros cupom_mensal tem_ir
           = Inr \<lparr> valor = 0, porcentagem = 0 \<rparr>"
proof (cases cupom_mensal)
  case True
  with assms show ?thesis
    by (simp add: calcular_rentabilidade_cupom cupom_loop_empty)
next
  case False
  from assms(2,3) have "periodo_anos self = 0" by simp
  with False assms(1) float_overflow_gt_one show ?thesis
    by (simp add: calcular_rentabilidade_def rentabilidade_liquida_def rentabilidade_bruta_def
        py_pow_def float_result_def py_truediv_def)
qed

theorem zero_period_zero_return_witness:
  "calcular_rentabilidade (Investimento_init 1000 2026 2026) (- 1) ''composto'' False True
     = Inr \<lparr> valor = 0, porcentagem = 0 \<rparr>
 \<and> calcular_rentabilidade (Investimento_init 1000 2026 2026) 0.15 ''simples'' True False
     = Inr \<lparr> valor = 0, porcentagem = 0 \<rparr>"
proof -
  have a: "0 < investimento_inicial (Investimento_init 1000 2026 2026)"
    by (simp add: Investimento_init_def)
  have b: "periodo_meses (Investimento_init 1000 2026 2026) = 0"
    by (simp add: Investimento_init_def)
  have c: "periodo_meses (Investimento_init 1000 2026 2026)
             = periodo_anos (Investimento_init 1000 2026 2026) * 12"
    by (simp add: Investimento_init_def)
  show ?thesis
    using zero_period_zero_return [OF a b c] by simp
qed



section \<open>Errors\<close>




section \<open>The subclasses compute as the base class\<close>

text \<open>
  C9. For every position and every argument tuple, \<open>calcular_rentabilidade\<close> of
  \<open>InvestimentoPreFixado\<close>, of \<open>InvestimentoPosFixado\<close> and of
  \<open>InvestimentoInflacao\<close> returns exactly what the method of the base class
  \<open>Investimento\<close> returns on the same inputs.
\<close>

theorem subclasses_compute_identically:
  "InvestimentoPreFixado_calcular_rentabilidade self r tipo_juros cupom_mensal tem_ir
     = calcular_rentabilidade self r tipo_juros cupom_mensal tem_ir
 \<and> InvestimentoPosFixado_calcular_rentabilidade self r tipo_juros cupom_mensal tem_ir
     = calcular_rentabilidade self r tipo_juros cupom_mensal tem_ir
 \<and> InvestimentoInflacao_calcular_rentabilidade self r tipo_juros cupom_mensal tem_ir
     = calcular_rentabilidade self r tipo_juros cupom_mensal tem_ir"
  by (simp add: InvestimentoPreFixado_calcular_rentabilidade_def
      InvestimentoPosFixado_calcular_rentabilidade_def
      InvestimentoInflacao_calcular_rentabilidade_def)

end
